theory Spec2Isabelle
  imports Complex_Main "HOL-Library.Word"
begin

unbundle bit_operations_syntax

section \<open>Tagged values and their arena (Tag0.cpp)\<close>

text \<open>
  The program packs an integer, a boolean or a reference to a boxed double into one
  \<open>int64_t\<close> whose three low bits are a type tag. This theory embeds the policies, the
  \<open>TaggedValue\<close> operations, the \<open>ConstexprHeap\<close> arena and \<open>add\<close>.

  \<^item> \<open>int64_t\<close> is \<open>64 word\<close>. \<open><<\<close> is \<open>push_bit\<close> (the bits shifted out are lost, as
    on the two's-complement targets the program is built for), \<open>>>\<close> on the signed
    operand is \<open>signed_drop_bit\<close>, \<open>&\<close>, \<open>|\<close>, \<open>~\<close> are \<open>AND\<close>, \<open>OR\<close>, \<open>NOT\<close>.
  \<^item> \<open>size_t\<close> values (\<open>next_index\<close>, \<open>N\<close>, \<open>index\<close>) are \<open>nat\<close>. The only arithmetic
    on them is \<open>next_index++\<close>, guarded by \<open>next_index < N\<close>, so it cannot wrap. The
    conversion \<open>static_cast<int64_t>(next_index)\<close> is \<open>of_nat\<close> and the conversion of
    the shifted pointer to \<open>size_t\<close> is \<open>unat\<close>.
  \<^item> \<open>double\<close> is not fixed: the element type of a heap is a type variable, with the
    operations the program uses on it (\<open>+\<close>, and the literal \<open>-1\<close> converted to the
    element type). \<open>static_cast<double>\<close> of an \<open>int64_t\<close> is a parameter \<open>to_double\<close>
    of \<open>add\<close>. No law of arithmetic is assumed of them.
  \<^item> A template parameter that selects a \<open>TagTraits<T>\<close> is resolved at compile time;
    here \<open>is_type\<close> and \<open>allocate\<close> take the tag of \<open>T\<close> as an argument, and the
    \<open>if constexpr\<close> branches of \<open>as\<close> and \<open>from\<close> are one function per type.
  \<^item> A failed \<open>assert\<close> ends the program: it is the error value \<open>AssertionFailed\<close>, and
    a function that can reach one returns \<open>error + result\<close>. (The \<open>return {-1}\<close> after
    the assertion in \<open>from<double>\<close> is reached only in a build that disables
    assertions; the word \<open>-1\<close> has tag bits \<open>0b111\<close> and is of no kind.)
  \<^item> The trailing \<open>return -1\<close> of \<open>as\<close> and \<open>from\<close> is for a type other than the three
    that have a policy; no such instance exists and it is not modelled.
  \<^item> Mutation is state passing: \<open>allocate\<close>, \<open>from\<close> and \<open>add\<close> return the arenas they
    were given by reference, updated. The two arenas of \<open>add\<close> are two objects, as in
    \<open>test_tagging\<close>.
\<close>

type_synonym int64_t = "64 word"

subsection \<open>Type policies\<close>

definition IntPolicy_tag :: int64_t where
  "IntPolicy_tag = 0"

definition IntPolicy_tag_value :: "int64_t \<Rightarrow> int64_t" where
  "IntPolicy_tag_value val = push_bit 3 val OR IntPolicy_tag"

definition IntPolicy_untag_value :: "int64_t \<Rightarrow> int64_t" where
  "IntPolicy_untag_value val = signed_drop_bit 3 val"

definition DoublePolicy_tag :: int64_t where
  "DoublePolicy_tag = 1"

definition BoolPolicy_tag :: int64_t where
  "BoolPolicy_tag = 3"

definition BoolPolicy_tag_value :: "bool \<Rightarrow> int64_t" where
  "BoolPolicy_tag_value val = (if val then 1 else 0) OR BoolPolicy_tag"

definition BoolPolicy_untag_value :: "int64_t \<Rightarrow> bool" where
  "BoolPolicy_untag_value val = (val AND NOT 7 \<noteq> 0)"

subsection \<open>The arena\<close>

text \<open>
  \<open>ConstexprHeap<T, N>\<close>: \<open>storage\<close> is a \<open>std::array<T, N>\<close>, so the capacity \<open>N\<close> is
  the length of \<open>storage\<close>. A default-constructed heap has every slot value-initialised
  and the cursor at 0.
\<close>

record 'a ConstexprHeap =
  storage :: "'a list"
  next_index :: nat

definition ConstexprHeap_init :: "nat \<Rightarrow> 'a::zero ConstexprHeap" where
  "ConstexprHeap_init N = \<lparr>storage = replicate N 0, next_index = 0\<rparr>"

definition allocate :: "int64_t \<Rightarrow> 'a \<Rightarrow> 'a ConstexprHeap \<Rightarrow> int64_t \<times> 'a ConstexprHeap" where
  "allocate tag val h =
     (if next_index h \<ge> length (storage h) then (- 1, h)
      else (push_bit 3 (of_nat (next_index h)) OR tag,
            h\<lparr>storage := (storage h)[next_index h := val],
              next_index := next_index h + 1\<rparr>))"

definition dereference :: "int64_t \<Rightarrow> 'a::{one,uminus} ConstexprHeap \<Rightarrow> 'a" where
  "dereference ptr h =
     (let index = unat (signed_drop_bit 3 ptr)
      in if index \<ge> length (storage h) then - 1 else storage h ! index)"

subsection \<open>Tagged values\<close>

record TaggedValue =
  raw :: int64_t

datatype error = AssertionFailed

definition is_type :: "int64_t \<Rightarrow> TaggedValue \<Rightarrow> bool" where
  "is_type tag tv = (raw tv AND 7 = tag)"

definition as_int64_t :: "TaggedValue \<Rightarrow> 'h \<Rightarrow> int64_t" where
  "as_int64_t tv heap =
     (if is_type IntPolicy_tag tv then IntPolicy_untag_value (raw tv) else - 1)"

definition as_double :: "TaggedValue \<Rightarrow> 'd::{one,uminus} ConstexprHeap \<Rightarrow> 'd" where
  "as_double tv heap =
     (if is_type DoublePolicy_tag tv then dereference (raw tv) heap else - 1)"

definition as_bool :: "TaggedValue \<Rightarrow> 'h \<Rightarrow> bool" where
  "as_bool tv heap =
     (if is_type BoolPolicy_tag tv then BoolPolicy_untag_value (raw tv) else False)"

definition from_int64_t :: "int64_t \<Rightarrow> 'h \<Rightarrow> TaggedValue \<times> 'h" where
  "from_int64_t val heap = (\<lparr>raw = IntPolicy_tag_value val\<rparr>, heap)"

definition from_double ::
  "'d \<Rightarrow> 'd ConstexprHeap \<Rightarrow> error + TaggedValue \<times> 'd ConstexprHeap" where
  "from_double val heap =
     (case allocate DoublePolicy_tag val heap of
        (ptr, heap') \<Rightarrow>
          if ptr = - 1 then Inl AssertionFailed else Inr (\<lparr>raw = ptr\<rparr>, heap'))"

definition from_bool :: "bool \<Rightarrow> 'h \<Rightarrow> TaggedValue \<times> 'h" where
  "from_bool val heap = (\<lparr>raw = BoolPolicy_tag_value val\<rparr>, heap)"

subsection \<open>Generalised addition\<close>

definition add ::
  "(int64_t \<Rightarrow> 'd) \<Rightarrow> TaggedValue \<Rightarrow> TaggedValue \<Rightarrow> 'i \<Rightarrow> 'd::{one,uminus,plus} ConstexprHeap
     \<Rightarrow> error + TaggedValue \<times> 'i \<times> 'd ConstexprHeap" where
  "add to_double a b int_heap double_heap =
     (if is_type IntPolicy_tag a \<and> is_type IntPolicy_tag b then
        (case from_int64_t (as_int64_t a int_heap + as_int64_t b int_heap) int_heap of
           (r, int_heap') \<Rightarrow> Inr (r, int_heap', double_heap))
      else
        (let fa = (if is_type IntPolicy_tag a then to_double (as_int64_t a int_heap)
                   else as_double a double_heap);
             fb = (if is_type IntPolicy_tag b then to_double (as_int64_t b int_heap)
                   else as_double b double_heap)
         in case from_double (fa + fb) double_heap of
              Inl e \<Rightarrow> Inl e
            | Inr (r, double_heap') \<Rightarrow> Inr (r, int_heap, double_heap')))"

subsection \<open>The program's own tests\<close>

text \<open>
  \<open>test_tagging\<close> and \<open>test_heap_overflow\<close>, with the \<open>double\<close> literals \<open>20.5\<close>, \<open>1.0\<close>
  and \<open>2.0\<close> as parameters.
\<close>

definition test_tagging ::
  "(int64_t \<Rightarrow> 'd) \<Rightarrow> 'd \<Rightarrow> error + 'd::{zero,one,uminus,plus}" where
  "test_tagging to_double c20_5 =
     (let int_heap = ConstexprHeap_init 8 :: int64_t ConstexprHeap;
          double_heap = ConstexprHeap_init 8
      in case from_int64_t 10 int_heap of
        (a, int_heap) \<Rightarrow>
          if \<not> raw a \<noteq> - 1 then Inl AssertionFailed
          else case from_double c20_5 double_heap of
            Inl e \<Rightarrow> Inl e
          | Inr (b, double_heap) \<Rightarrow>
              if \<not> raw b \<noteq> - 1 then Inl AssertionFailed
              else case add to_double a b int_heap double_heap of
                Inl e \<Rightarrow> Inl e
              | Inr (result, int_heap, double_heap) \<Rightarrow>
                  Inr (as_double result double_heap))"

definition test_heap_overflow :: "'d::zero \<Rightarrow> 'd \<Rightarrow> bool" where
  "test_heap_overflow c1 c2 =
     (let heap = ConstexprHeap_init 1
      in case allocate DoublePolicy_tag c1 heap of
        (first, heap) \<Rightarrow>
          let ok_first = (first \<noteq> - 1)
          in case allocate DoublePolicy_tag c2 heap of
               (second, heap) \<Rightarrow>
                 let ok_second = (second = - 1)
                 in ok_first \<and> ok_second)"

section \<open>Bit-level facts\<close>

lemmas policy_defs =
  IntPolicy_tag_def IntPolicy_tag_value_def IntPolicy_untag_value_def
  DoublePolicy_tag_def BoolPolicy_tag_def BoolPolicy_tag_value_def BoolPolicy_untag_value_def

lemma and_7_eq_take_bit: "(w :: int64_t) AND 7 = take_bit 3 w"
  by (simp add: take_bit_eq_mask mask_eq_exp_minus_1)

text \<open>Shifting left by 3 and arithmetically back keeps the low 61 bits, sign-extended.\<close>

lemma untag_tag_eq_signed_take_bit:
  "signed_drop_bit 3 (push_bit 3 (s :: int64_t)) = signed_take_bit 60 s"
  by (rule bit_word_eqI) (auto simp: bit_simps)

lemma sint_signed_take_bit_60:
  "sint (signed_take_bit 60 (s :: int64_t)) = signed_take_bit 60 (sint s)"
  by (rule bit_eqI) (auto simp: bit_simps min_def)

lemma signed_take_bit_60_id:
  "- (2 ^ 60) \<le> sint (i :: int64_t) \<Longrightarrow> sint i < 2 ^ 60 \<Longrightarrow> signed_take_bit 60 i = i"
  by (rule signed_word_eqI [where ?'a = int])
    (simp add: sint_signed_take_bit_60 signed_take_bit_int_eq_self)

lemma signed_take_bit_60_eq_iff:
  "signed_take_bit 60 (i :: int64_t) = i \<longleftrightarrow> - (2 ^ 60) \<le> sint i \<and> sint i < 2 ^ 60"
proof -
  have "signed_take_bit 60 i = i \<longleftrightarrow> sint (signed_take_bit 60 i) = sint i"
    by (auto intro: signed_word_eqI [where ?'a = int])
  then show ?thesis
    by (simp add: sint_signed_take_bit_60 signed_take_bit_int_eq_self_iff)
qed

lemma nat_bit_bound: "i < 2 ^ 60 \<Longrightarrow> bit (i :: nat) n \<Longrightarrow> n < 60"
  using bit_take_bit_iff [of 60 i n] take_bit_nat_eq_self [of i 60] by simp

lemma tag_bit_bound: "take_bit 3 (tag :: int64_t) = tag \<Longrightarrow> bit tag n \<Longrightarrow> n < 3"
  using bit_take_bit_iff [of 3 tag n] by simp

text \<open>An encoded pointer gives its index back as long as the index is below \<open>2\<^sup>6\<^sup>0\<close>.\<close>

lemma index_of_pointer:
  assumes i: "i < 2 ^ 60" and t: "take_bit 3 tag = tag"
  shows "unat (signed_drop_bit 3 (push_bit 3 (of_nat i :: int64_t) OR tag)) = i"
proof -
  have "signed_drop_bit 3 (push_bit 3 (of_nat i :: int64_t) OR tag) = of_nat i"
  proof (rule bit_word_eqI)
    fix n assume "n < LENGTH(64)"
    have A: "\<And>m. bit i m \<Longrightarrow> m < 60" using nat_bit_bound [OF i] .
    have B: "\<And>m. bit tag m \<Longrightarrow> m < 3" using tag_bit_bound [OF t] .
    show "bit (signed_drop_bit 3 (push_bit 3 (of_nat i :: int64_t) OR tag)) n
          = bit (of_nat i :: int64_t) n"
      using A [of 60] A [of n] B [of 63] B [of "3 + n"] by (auto simp: bit_simps)
  qed
  with i show ?thesis by (simp add: unat_of_nat take_bit_nat_eq_self)
qed

lemma and_7_push_bit_or:
  "take_bit 3 tag = tag \<Longrightarrow> (push_bit 3 (x :: int64_t) OR tag) AND 7 = tag"
  by (simp add: and_7_eq_take_bit take_bit_push_bit)

text \<open>The overflow sentinel has tag bits \<open>0b111\<close>, which no policy uses.\<close>

lemma pointer_not_sentinel:
  "take_bit 3 tag \<noteq> 7 \<Longrightarrow> push_bit 3 (x :: int64_t) OR tag \<noteq> - 1"
proof
  assume a: "take_bit 3 tag \<noteq> 7" and "push_bit 3 x OR tag = - 1"
  then have "take_bit 3 (push_bit 3 x OR tag) = take_bit 3 (- 1 :: int64_t)" by simp
  then have "take_bit 3 tag = (7 :: int64_t)"
    by (simp add: take_bit_push_bit mask_eq_exp_minus_1)
  with a show False by simp
qed

lemma policy_tag_fits:
  "tag \<in> {IntPolicy_tag, DoublePolicy_tag, BoolPolicy_tag} \<Longrightarrow> take_bit 3 tag = tag"
  by (auto simp: policy_defs)

lemma policy_tag_not_7:
  "tag \<in> {IntPolicy_tag, DoublePolicy_tag, BoolPolicy_tag} \<Longrightarrow> take_bit 3 tag \<noteq> 7"
  by (auto simp: policy_defs)

section \<open>Booleans\<close>

text \<open>
  C1. Boolean round trip. \<open>BoolPolicy::tag_value\<close> ORs the boolean into bit 0, which the
  tag \<open>0b011\<close> already sets, and \<open>untag_value\<close> looks only at the bits above the tag:
  \<open>true\<close> is encoded as the same word as \<open>false\<close> and is read back as \<open>false\<close>.
\<close>

theorem bool_roundtrip_true_lost:
  "raw (fst (from_bool True heap)) = 3
   \<and> fst (from_bool True heap) = fst (from_bool False heap)
   \<and> as_bool (fst (from_bool True heap)) heap' = False
   \<and> as_bool (fst (from_bool b heap)) heap' = False"
  by (simp add: from_bool_def as_bool_def is_type_def BoolPolicy_tag_value_def
      BoolPolicy_untag_value_def BoolPolicy_tag_def)

section \<open>Integers\<close>

lemma is_type_from_int64_t: "is_type IntPolicy_tag (fst (from_int64_t i heap))"
  unfolding is_type_def from_int64_t_def policy_defs and_7_eq_take_bit
  by (rule bit_word_eqI) (auto simp: bit_simps)

lemma as_from_int64_t:
  "as_int64_t (fst (from_int64_t i heap)) heap' = signed_take_bit 60 i"
  using is_type_from_int64_t [of i heap]
  by (simp add: as_int64_t_def) (simp add: from_int64_t_def policy_defs untag_tag_eq_signed_take_bit)

text \<open>
  C2 (as amended). \<open>from\<close> (shift left by 3, OR with tag \<open>0b000\<close>) followed by \<open>as\<close>
  (arithmetic shift right by 3) returns the low 61 bits of the integer, sign-extended.
  It returns the integer itself exactly for the integers of the 61-bit payload, those of
  \<open>[-2\<^sup>6\<^sup>0, 2\<^sup>6\<^sup>0)\<close>.
\<close>

theorem int_roundtrip:
  "as_int64_t (fst (from_int64_t i heap)) heap' = signed_take_bit 60 i
   \<and> (- (2 ^ 60) \<le> sint i \<and> sint i < 2 ^ 60
        \<longrightarrow> as_int64_t (fst (from_int64_t i heap)) heap' = i)
   \<and> (as_int64_t (fst (from_int64_t i heap)) heap' = i
        \<longrightarrow> - (2 ^ 60) \<le> sint i \<and> sint i < 2 ^ 60)"
  by (simp add: as_from_int64_t signed_take_bit_60_eq_iff)

text \<open>Witness for C2: the integer \<open>-5\<close>.\<close>

theorem int_roundtrip_witness:
  "- (2 ^ 60) \<le> sint (- 5 :: int64_t) \<and> sint (- 5 :: int64_t) < 2 ^ 60
   \<and> as_int64_t (fst (from_int64_t (- 5) ())) () = - 5"
  using int_roundtrip [of "- 5" "()" "()"] by simp

text \<open>
  Counterexample to C2 as stated: the \<open>int64_t\<close> value \<open>2\<^sup>6\<^sup>0\<close> is encoded as the word
  \<open>2\<^sup>6\<^sup>3\<close> and comes back as \<open>-2\<^sup>6\<^sup>0\<close>.
\<close>

theorem int_roundtrip_out_of_range:
  "as_int64_t (fst (from_int64_t (2 ^ 60) ())) () = - (2 ^ 60)
   \<and> as_int64_t (fst (from_int64_t (2 ^ 60) ())) () \<noteq> 2 ^ 60"
  by (simp add: as_from_int64_t)

lemma sint_as_int64_t_bounds:
  "- (2 ^ 60) \<le> sint (as_int64_t tv heap) \<and> sint (as_int64_t tv heap) < 2 ^ 60"
proof (cases "is_type IntPolicy_tag tv")
  case True
  have "- (2 ^ 63) \<le> sint (raw tv)" "sint (raw tv) < 2 ^ 63"
    using sint_ge [of "raw tv"] sint_lt [of "raw tv"] by simp_all
  then show ?thesis using True
    by (simp add: as_int64_t_def policy_defs sint_signed_drop_bit_eq drop_bit_eq_div) arith
next
  case False
  then show ?thesis by (simp add: as_int64_t_def)
qed

lemma sint_add_as_int64_t:
  "sint (as_int64_t a h + as_int64_t b h') = sint (as_int64_t a h) + sint (as_int64_t b h')"
  using sint_as_int64_t_bounds [of a h] sint_as_int64_t_bounds [of b h']
  by (simp add: sint_word_add signed_take_bit_int_eq_self)

text \<open>
  C3 (as amended). For Integer-kind operands \<open>a\<close> and \<open>b\<close>, \<open>add\<close> returns an Integer-kind
  value and leaves both arenas as they were. The 64-bit sum of the decoded operands never
  overflows, but it is re-encoded into the 61-bit payload: the Integer extraction of the
  result is the sum wrapped to 61 bits (two's complement), and it is the sum itself
  whenever the sum lies in \<open>[-2\<^sup>6\<^sup>0, 2\<^sup>6\<^sup>0)\<close>.
\<close>

theorem add_int_int:
  assumes "is_type IntPolicy_tag a" and "is_type IntPolicy_tag b"
  shows "let x = as_int64_t a ih; y = as_int64_t b ih; r = fst (from_int64_t (x + y) ih) in
     add to_double a b ih dh = Inr (r, ih, dh)
     \<and> is_type IntPolicy_tag r
     \<and> as_int64_t r ih = signed_take_bit 60 (x + y)
     \<and> sint (x + y) = sint x + sint y
     \<and> (- (2 ^ 60) \<le> sint x + sint y \<and> sint x + sint y < 2 ^ 60 \<longrightarrow> as_int64_t r ih = x + y)"
proof -
  define x where "x = as_int64_t a ih"
  define y where "y = as_int64_t b ih"
  define r where "r = fst (from_int64_t (x + y) ih)"
  have 1: "add to_double a b ih dh = Inr (r, ih, dh)"
    using assms by (simp add: add_def r_def x_def y_def from_int64_t_def)
  have 2: "is_type IntPolicy_tag r"
    unfolding r_def by (rule is_type_from_int64_t)
  have 3: "as_int64_t r ih = signed_take_bit 60 (x + y)"
    unfolding r_def by (rule as_from_int64_t)
  have 4: "sint (x + y) = sint x + sint y"
    unfolding x_def y_def by (rule sint_add_as_int64_t)
  have 5: "as_int64_t r ih = x + y"
    if "- (2 ^ 60) \<le> sint x + sint y" and "sint x + sint y < 2 ^ 60"
    using that 4 by (simp add: 3 signed_take_bit_60_id)
  show ?thesis
    using 1 2 3 4 5 by (simp add: Let_def x_def y_def r_def)
qed

text \<open>
  Witness for C3: \<open>add(from(Integer, 10), from(Integer, 5))\<close> on two fresh 8-slot arenas
  is the Integer-kind word 120, which decodes to 15; the arenas are untouched.
\<close>

theorem add_int_int_witness:
  "is_type IntPolicy_tag (fst (from_int64_t 10 (ConstexprHeap_init 8 :: int64_t ConstexprHeap)))
   \<and> is_type IntPolicy_tag (fst (from_int64_t 5 (ConstexprHeap_init 8 :: int64_t ConstexprHeap)))
   \<and> - (2 ^ 60) \<le> sint (10 :: int64_t) + sint (5 :: int64_t)
   \<and> sint (10 :: int64_t) + sint (5 :: int64_t) < 2 ^ 60
   \<and> add (of_int \<circ> sint)
         (fst (from_int64_t 10 (ConstexprHeap_init 8 :: int64_t ConstexprHeap)))
         (fst (from_int64_t 5 (ConstexprHeap_init 8 :: int64_t ConstexprHeap)))
         (ConstexprHeap_init 8 :: int64_t ConstexprHeap)
         (ConstexprHeap_init 8 :: real ConstexprHeap)
       = Inr (\<lparr>raw = 120\<rparr>, ConstexprHeap_init 8, ConstexprHeap_init 8)
   \<and> as_int64_t \<lparr>raw = 120\<rparr> (ConstexprHeap_init 8 :: int64_t ConstexprHeap) = 15"
  using add_int_int [where a = "fst (from_int64_t 10 (ConstexprHeap_init 8 :: int64_t ConstexprHeap))"
      and b = "fst (from_int64_t 5 (ConstexprHeap_init 8 :: int64_t ConstexprHeap))"
      and to_double = "of_int \<circ> sint" and ih = "ConstexprHeap_init 8 :: int64_t ConstexprHeap"
      and dh = "ConstexprHeap_init 8 :: real ConstexprHeap"]
  by (simp add: is_type_from_int64_t as_from_int64_t Let_def)
    (simp add: from_int64_t_def as_int64_t_def is_type_def policy_defs)

text \<open>
  Counterexample to C3 as stated: the Integer-kind words \<open>2\<^sup>6\<^sup>3 - 8\<close> and \<open>8\<close> decode to
  \<open>2\<^sup>6\<^sup>0 - 1\<close> and \<open>1\<close>. Their sum \<open>2\<^sup>6\<^sup>0\<close> is encoded as the word \<open>2\<^sup>6\<^sup>3\<close>, whose Integer
  extraction is \<open>-2\<^sup>6\<^sup>0\<close>, not the sum of the decoded operands.
\<close>

theorem add_int_int_overflow:
  "is_type IntPolicy_tag \<lparr>raw = 2 ^ 63 - 8\<rparr> \<and> is_type IntPolicy_tag \<lparr>raw = 8\<rparr>
   \<and> as_int64_t \<lparr>raw = 2 ^ 63 - 8\<rparr> () = 2 ^ 60 - 1
   \<and> as_int64_t \<lparr>raw = 8\<rparr> () = 1
   \<and> add (of_int \<circ> sint) \<lparr>raw = 2 ^ 63 - 8\<rparr> \<lparr>raw = 8\<rparr> () (ConstexprHeap_init 8 :: real ConstexprHeap)
       = Inr (\<lparr>raw = 2 ^ 63\<rparr>, (), ConstexprHeap_init 8)
   \<and> as_int64_t \<lparr>raw = 2 ^ 63\<rparr> () = - (2 ^ 60)
   \<and> as_int64_t \<lparr>raw = 2 ^ 63\<rparr> () \<noteq> as_int64_t \<lparr>raw = 2 ^ 63 - 8\<rparr> () + as_int64_t \<lparr>raw = 8\<rparr> ()"
  by (simp add: add_def from_int64_t_def as_int64_t_def is_type_def policy_defs)

section \<open>Wrong-type access\<close>

text \<open>
  C5. When the tag of a value is not the tag of the requested type, \<open>as\<close> returns the
  default of that type: \<open>-1\<close> for \<open>int64_t\<close>, \<open>-1.0\<close> for \<open>double\<close>, \<open>false\<close> for \<open>bool\<close>.
  In particular \<open>as(Integer, from(Boolean, true)) = -1\<close>,
  \<open>as(Boolean, from(Integer, 5)) = false\<close> and \<open>as(Real, from(Integer, 5)) = -1.0\<close>.
\<close>

theorem as_mismatch_default:
  "(\<not> is_type IntPolicy_tag tv \<longrightarrow> as_int64_t tv ih = - 1)
   \<and> (\<not> is_type DoublePolicy_tag tv \<longrightarrow> as_double tv dh = - 1)
   \<and> (\<not> is_type BoolPolicy_tag tv \<longrightarrow> as_bool tv bh = False)
   \<and> as_int64_t (fst (from_bool True bh)) ih = - 1
   \<and> as_bool (fst (from_int64_t 5 ih)) bh = False
   \<and> as_double (fst (from_int64_t 5 ih)) dh = - 1"
  by (simp add: as_int64_t_def as_double_def as_bool_def from_bool_def from_int64_t_def
      is_type_def policy_defs)

text \<open>Witness for C5: the word 7, whose tag \<open>0b111\<close> is the tag of no type.\<close>

theorem as_mismatch_default_witness:
  "\<not> is_type IntPolicy_tag \<lparr>raw = 7\<rparr> \<and> \<not> is_type DoublePolicy_tag \<lparr>raw = 7\<rparr>
   \<and> \<not> is_type BoolPolicy_tag \<lparr>raw = 7\<rparr>
   \<and> as_int64_t \<lparr>raw = 7\<rparr> () = - 1
   \<and> as_double \<lparr>raw = 7\<rparr> (ConstexprHeap_init 8 :: real ConstexprHeap) = - 1
   \<and> as_bool \<lparr>raw = 7\<rparr> () = False"
  using as_mismatch_default [of "\<lparr>raw = 7\<rparr>" "()" "ConstexprHeap_init 8 :: real ConstexprHeap" "()"]
  by (simp add: is_type_def policy_defs)

section \<open>The arena: allocate and dereference\<close>

text \<open>
  For the three policy tags, \<open>allocate\<close> returns the sentinel exactly when the arena is
  full: no encoded pointer is \<open>-1\<close>.
\<close>

lemma allocate_sentinel_iff:
  assumes "tag \<in> {IntPolicy_tag, DoublePolicy_tag, BoolPolicy_tag}"
  shows "fst (allocate tag v h) = - 1 \<longleftrightarrow> length (storage h) \<le> next_index h"
  using pointer_not_sentinel [OF policy_tag_not_7 [OF assms], of "of_nat (next_index h)"]
  by (simp add: allocate_def)

text \<open>
  C6. In an arena of capacity 1 with the cursor at 0, the first \<open>allocate\<close> succeeds with
  a pointer that is not the sentinel \<open>-1\<close>; the second returns \<open>-1\<close> and the arena it
  leaves is the arena it found; the first value is still in its slot and \<open>dereference\<close>
  of the first pointer returns it.
\<close>

theorem arena_exhaustion:
  assumes "length (storage h) = 1" and "next_index h = 0"
    and "tag \<in> {IntPolicy_tag, DoublePolicy_tag, BoolPolicy_tag}"
  shows "fst (allocate tag v1 h) \<noteq> - 1
    \<and> allocate tag v2 (snd (allocate tag v1 h)) = (- 1, snd (allocate tag v1 h))
    \<and> storage (snd (allocate tag v1 h)) = [v1]
    \<and> dereference (fst (allocate tag v1 h)) (snd (allocate tag v2 (snd (allocate tag v1 h)))) = v1"
proof -
  obtain x where s: "storage h = [x]"
    using assms(1) by (cases "storage h") auto
  have t: "take_bit 3 tag = tag" "take_bit 3 tag \<noteq> 7"
    using policy_tag_fits [OF assms(3)] policy_tag_not_7 [OF assms(3)] .
  have a1: "allocate tag v1 h = (tag, h\<lparr>storage := [v1], next_index := Suc 0\<rparr>)"
    using assms(2) s by (simp add: allocate_def)
  have a2: "allocate tag v2 (h\<lparr>storage := [v1], next_index := Suc 0\<rparr>)
            = (- 1, h\<lparr>storage := [v1], next_index := Suc 0\<rparr>)"
    by (simp add: allocate_def)
  have "tag \<noteq> - 1"
    using pointer_not_sentinel [OF t(2), of 0] by simp
  moreover have "unat (signed_drop_bit 3 tag) = 0"
    using index_of_pointer [OF _ t(1), of 0] by simp
  ultimately show ?thesis
    by (simp add: a1 a2 dereference_def)
qed

text \<open>
  Witness for C6: the arena of \<open>test_heap_overflow\<close>, a fresh \<open>ConstexprHeap<double, 1>\<close>,
  and the test itself.
\<close>

theorem arena_exhaustion_witness:
  "length (storage (ConstexprHeap_init 1 :: real ConstexprHeap)) = 1
   \<and> next_index (ConstexprHeap_init 1 :: real ConstexprHeap) = 0
   \<and> DoublePolicy_tag \<in> {IntPolicy_tag, DoublePolicy_tag, BoolPolicy_tag}
   \<and> allocate DoublePolicy_tag 1 (ConstexprHeap_init 1 :: real ConstexprHeap)
       = (1, \<lparr>storage = [1], next_index = 1\<rparr>)
   \<and> allocate DoublePolicy_tag 2 \<lparr>storage = [1 :: real], next_index = 1\<rparr>
       = (- 1, \<lparr>storage = [1], next_index = 1\<rparr>)
   \<and> dereference 1 \<lparr>storage = [1 :: real], next_index = 1\<rparr> = 1
   \<and> test_heap_overflow (1 :: real) 2"
  using arena_exhaustion [of "ConstexprHeap_init 1 :: real ConstexprHeap" DoublePolicy_tag 1 2]
  by (simp add: ConstexprHeap_init_def allocate_def dereference_def test_heap_overflow_def
      DoublePolicy_tag_def)

text \<open>
  C7. With the cursor below the capacity, \<open>allocate\<close> returns the old cursor shifted left
  by 3 and ORed with the tag, writes the value at the old cursor and advances the cursor
  by one, leaving every other slot as it was. In every state the capacity is kept, the
  cursor does not decrease and the slots below the old cursor are unchanged.
\<close>

theorem allocate_post:
  "(next_index h < length (storage h) \<longrightarrow>
      fst (allocate tag v h) = push_bit 3 (of_nat (next_index h)) OR tag
      \<and> storage (snd (allocate tag v h)) ! next_index h = v
      \<and> next_index (snd (allocate tag v h)) = next_index h + 1
      \<and> (\<forall>i. i \<noteq> next_index h \<longrightarrow> storage (snd (allocate tag v h)) ! i = storage h ! i))
   \<and> length (storage (snd (allocate tag v h))) = length (storage h)
   \<and> next_index h \<le> next_index (snd (allocate tag v h))
   \<and> (\<forall>i < next_index h. storage (snd (allocate tag v h)) ! i = storage h ! i)"
  by (simp add: allocate_def)

text \<open>Witness for C7: a second allocation in a 3-slot arena of doubles.\<close>

theorem allocate_post_witness:
  "next_index \<lparr>storage = [20.5, 0, 0 :: real], next_index = 1\<rparr>
     < length (storage \<lparr>storage = [20.5, 0, 0 :: real], next_index = 1\<rparr>)
   \<and> (1 :: nat) \<noteq> 0 \<and> (0 :: nat) < 1
   \<and> allocate DoublePolicy_tag 30.5 \<lparr>storage = [20.5, 0, 0 :: real], next_index = 1\<rparr>
       = (9, \<lparr>storage = [20.5, 30.5, 0], next_index = 2\<rparr>)"
  using allocate_post [of "\<lparr>storage = [20.5, 0, 0 :: real], next_index = 1\<rparr>" DoublePolicy_tag "30.5"]
  by (simp add: allocate_def DoublePolicy_tag_def)

text \<open>
  C8. \<open>dereference\<close> takes the index to be the pointer shifted right by 3, read as an
  unsigned number. It returns the slot at that index when the index is below the
  capacity and the sentinel \<open>-1\<close> otherwise. The cursor plays no part: the result is the
  same for every value of \<open>next_index\<close>. The function returns a value only, the arena is
  not changed. Through it, \<open>as\<close> on a Real-kind value whose index is out of range
  returns the sentinel, and on one whose index is in range the slot.
\<close>

theorem dereference_bounds:
  "dereference p h =
     (if unat (signed_drop_bit 3 p) < length (storage h)
      then storage h ! unat (signed_drop_bit 3 p) else - 1)
   \<and> dereference p (h\<lparr>next_index := c\<rparr>) = dereference p h
   \<and> (is_type DoublePolicy_tag tv \<and> length (storage h) \<le> unat (signed_drop_bit 3 (raw tv))
        \<longrightarrow> as_double tv h = - 1)
   \<and> (is_type DoublePolicy_tag tv \<and> unat (signed_drop_bit 3 (raw tv)) < length (storage h)
        \<longrightarrow> as_double tv h = storage h ! unat (signed_drop_bit 3 (raw tv)))"
  by (simp add: dereference_def as_double_def Let_def)

text \<open>
  Witness for C8, on a fresh 8-slot arena (cursor 0): the hand-made Real-kind word 65
  (index 8) gives the sentinel; the Real-kind word 41 (index 5, below the capacity but
  not below the cursor) gives the value-initialised slot 0.0; the negative pointer \<open>-7\<close>
  has index \<open>2\<^sup>6\<^sup>4 - 1\<close> and gives the sentinel.
\<close>

theorem dereference_bounds_witness:
  "is_type DoublePolicy_tag \<lparr>raw = 65\<rparr>
   \<and> length (storage (ConstexprHeap_init 8 :: real ConstexprHeap)) \<le> unat (signed_drop_bit 3 (raw \<lparr>raw = 65\<rparr>))
   \<and> as_double \<lparr>raw = 65\<rparr> (ConstexprHeap_init 8 :: real ConstexprHeap) = - 1
   \<and> is_type DoublePolicy_tag \<lparr>raw = 41\<rparr>
   \<and> unat (signed_drop_bit 3 (raw \<lparr>raw = 41\<rparr>)) < length (storage (ConstexprHeap_init 8 :: real ConstexprHeap))
   \<and> next_index (ConstexprHeap_init 8 :: real ConstexprHeap) \<le> unat (signed_drop_bit 3 (raw \<lparr>raw = 41\<rparr>))
   \<and> as_double \<lparr>raw = 41\<rparr> (ConstexprHeap_init 8 :: real ConstexprHeap) = 0
   \<and> dereference (- 7) (ConstexprHeap_init 8 :: real ConstexprHeap) = - 1"
  using dereference_bounds [of "41" "ConstexprHeap_init 8 :: real ConstexprHeap" 0 "\<lparr>raw = 65\<rparr>"]
    dereference_bounds [of "- 7" "ConstexprHeap_init 8 :: real ConstexprHeap" 0 "\<lparr>raw = 41\<rparr>"]
  by (simp add: is_type_def policy_defs ConstexprHeap_init_def
      unsigned_minus_1_eq_mask mask_eq_exp_minus_1)

section \<open>Addition with promotion\<close>

lemma from_double_free:
  "next_index dh < length (storage dh) \<Longrightarrow>
   from_double v dh =
     Inr (\<lparr>raw = push_bit 3 (of_nat (next_index dh)) OR DoublePolicy_tag\<rparr>,
          dh\<lparr>storage := (storage dh)[next_index dh := v], next_index := next_index dh + 1\<rparr>)"
  using pointer_not_sentinel [of DoublePolicy_tag "of_nat (next_index dh)"]
  by (simp add: from_double_def allocate_def) (simp add: DoublePolicy_tag_def)

lemma from_double_full:
  "length (storage dh) \<le> next_index dh \<Longrightarrow> from_double v dh = Inl AssertionFailed"
  by (simp add: from_double_def allocate_def)

lemma is_type_double_pointer:
  "is_type DoublePolicy_tag \<lparr>raw = push_bit 3 x OR DoublePolicy_tag\<rparr>"
  using and_7_push_bit_or [of DoublePolicy_tag x]
  by (simp add: is_type_def) (simp add: DoublePolicy_tag_def)

lemma as_double_fresh_pointer:
  assumes "next_index dh < length (storage dh)" and "next_index dh < 2 ^ 60"
  shows "as_double \<lparr>raw = push_bit 3 (of_nat (next_index dh)) OR DoublePolicy_tag\<rparr>
           (dh\<lparr>storage := (storage dh)[next_index dh := v], next_index := next_index dh + 1\<rparr>) = v"
proof -
  have "unat (signed_drop_bit 3 (push_bit 3 (of_nat (next_index dh) :: int64_t) OR DoublePolicy_tag))
        = next_index dh"
    using assms(2) by (rule index_of_pointer) (simp add: DoublePolicy_tag_def)
  then show ?thesis
    using assms(1) is_type_double_pointer [of "of_nat (next_index dh)"]
    by (simp add: as_double_def dereference_def)
qed

text \<open>
  C4 (as amended). When at least one operand is not of Integer kind, each operand becomes
  a double: an Integer-kind operand is decoded and converted, any other operand is read
  with \<open>as<double>\<close>. The two doubles are added. If the double arena has a free slot,
  the sum is stored at the cursor and \<open>add\<close> returns the Real-kind pointer to it, with
  the integer arena as it was; read back with \<open>as<double>\<close>, the result is the sum (the
  cursor being below \<open>2\<^sup>6\<^sup>0\<close>, as in every arena that fits in memory). If the double arena
  is full, \<open>from<double>\<close> fails its assertion and \<open>add\<close> returns no value.
\<close>

theorem add_promotion:
  assumes "\<not> (is_type IntPolicy_tag a \<and> is_type IntPolicy_tag b)"
  shows "let fa = (if is_type IntPolicy_tag a then to_double (as_int64_t a ih) else as_double a dh);
             fb = (if is_type IntPolicy_tag b then to_double (as_int64_t b ih) else as_double b dh);
             r = \<lparr>raw = push_bit 3 (of_nat (next_index dh)) OR DoublePolicy_tag\<rparr>;
             dh' = dh\<lparr>storage := (storage dh)[next_index dh := fa + fb],
                      next_index := next_index dh + 1\<rparr>
         in (next_index dh < length (storage dh) \<longrightarrow>
               add to_double a b ih dh = Inr (r, ih, dh')
               \<and> is_type DoublePolicy_tag r
               \<and> (next_index dh < 2 ^ 60 \<longrightarrow> as_double r dh' = fa + fb))
            \<and> (length (storage dh) \<le> next_index dh \<longrightarrow>
                 add to_double a b ih dh = Inl AssertionFailed)"
proof -
  define fa where "fa = (if is_type IntPolicy_tag a then to_double (as_int64_t a ih) else as_double a dh)"
  define fb where "fb = (if is_type IntPolicy_tag b then to_double (as_int64_t b ih) else as_double b dh)"
  have add_eq: "add to_double a b ih dh =
      (case from_double (fa + fb) dh of Inl e \<Rightarrow> Inl e | Inr (r, dh') \<Rightarrow> Inr (r, ih, dh'))"
    using assms by (auto simp: add_def fa_def fb_def Let_def)
  have free: "add to_double a b ih dh =
      Inr (\<lparr>raw = push_bit 3 (of_nat (next_index dh)) OR DoublePolicy_tag\<rparr>, ih,
           dh\<lparr>storage := (storage dh)[next_index dh := fa + fb], next_index := next_index dh + 1\<rparr>)"
    if "next_index dh < length (storage dh)"
    using that by (simp add: add_eq from_double_free)
  have full: "add to_double a b ih dh = Inl AssertionFailed"
    if "length (storage dh) \<le> next_index dh"
    using that by (simp add: add_eq from_double_full)
  show ?thesis
    using free full is_type_double_pointer [of "of_nat (next_index dh)"]
      as_double_fresh_pointer [of dh "fa + fb"]
    unfolding Let_def fa_def [symmetric] fb_def [symmetric] by auto
qed

text \<open>
  Witness for C4: what \<open>test_tagging\<close> does. On 8-slot arenas, \<open>from(Integer, 10)\<close> is
  the word 80 and \<open>from(Real, 20.5)\<close> the pointer 1 to slot 0; \<open>add\<close> stores the sum in
  slot 1 and returns the pointer 9, which decodes to 30.5. Here, and in the other
  evaluations below, doubles are run as exact reals: the values involved are binary
  fractions with few digits, on which double arithmetic is exact. The last two lines
  are the full-arena case, on an arena of capacity 0.
\<close>

theorem add_promotion_witness:
  "\<not> (is_type IntPolicy_tag \<lparr>raw = 80\<rparr> \<and> is_type IntPolicy_tag \<lparr>raw = 1\<rparr>)
   \<and> from_int64_t 10 (ConstexprHeap_init 8 :: int64_t ConstexprHeap)
       = (\<lparr>raw = 80\<rparr>, ConstexprHeap_init 8)
   \<and> from_double 20.5 (ConstexprHeap_init 8 :: real ConstexprHeap)
       = Inr (\<lparr>raw = 1\<rparr>, \<lparr>storage = [20.5, 0, 0, 0, 0, 0, 0, 0], next_index = 1\<rparr>)
   \<and> next_index \<lparr>storage = [20.5, 0, 0, 0, 0, 0, 0, 0 :: real], next_index = 1\<rparr>
       < length (storage \<lparr>storage = [20.5, 0, 0, 0, 0, 0, 0, 0 :: real], next_index = 1\<rparr>)
   \<and> next_index \<lparr>storage = [20.5, 0, 0, 0, 0, 0, 0, 0 :: real], next_index = 1\<rparr> < 2 ^ 60
   \<and> add (of_int \<circ> sint) \<lparr>raw = 80\<rparr> \<lparr>raw = 1\<rparr> (ConstexprHeap_init 8 :: int64_t ConstexprHeap)
         \<lparr>storage = [20.5, 0, 0, 0, 0, 0, 0, 0 :: real], next_index = 1\<rparr>
       = Inr (\<lparr>raw = 9\<rparr>, ConstexprHeap_init 8,
              \<lparr>storage = [20.5, 30.5, 0, 0, 0, 0, 0, 0], next_index = 2\<rparr>)
   \<and> as_double \<lparr>raw = 9\<rparr> \<lparr>storage = [20.5, 30.5, 0, 0, 0, 0, 0, 0 :: real], next_index = 2\<rparr> = 30.5
   \<and> test_tagging (of_int \<circ> sint) (20.5 :: real) = Inr 30.5
   \<and> length (storage \<lparr>storage = [] :: real list, next_index = 0\<rparr>)
       \<le> next_index \<lparr>storage = [] :: real list, next_index = 0\<rparr>
   \<and> add (of_int \<circ> sint) \<lparr>raw = 80\<rparr> \<lparr>raw = 1\<rparr> (ConstexprHeap_init 8 :: int64_t ConstexprHeap)
         \<lparr>storage = [] :: real list, next_index = 0\<rparr>
       = Inl AssertionFailed"
proof -
  have rep: "replicate 8 (0 :: real) = [0, 0, 0, 0, 0, 0, 0, 0]"
    by (simp add: numeral_eq_Suc)
  have t: "test_tagging (of_int \<circ> sint) (20.5 :: real) = Inr 30.5"
    by (simp add: test_tagging_def add_def from_double_def from_int64_t_def allocate_def
        as_double_def as_int64_t_def dereference_def is_type_def policy_defs
        ConstexprHeap_init_def rep Let_def)
  show ?thesis
    using add_promotion [where a = "\<lparr>raw = 80\<rparr>" and b = "\<lparr>raw = 1\<rparr>"
        and to_double = "of_int \<circ> sint" and ih = "ConstexprHeap_init 8 :: int64_t ConstexprHeap"
        and dh = "\<lparr>storage = [20.5, 0, 0, 0, 0, 0, 0, 0 :: real], next_index = 1\<rparr>"]
      add_promotion [where a = "\<lparr>raw = 80\<rparr>" and b = "\<lparr>raw = 1\<rparr>"
        and to_double = "of_int \<circ> sint" and ih = "ConstexprHeap_init 8 :: int64_t ConstexprHeap"
        and dh = "\<lparr>storage = [] :: real list, next_index = 0\<rparr>"] t
    by (simp add: from_double_def from_int64_t_def allocate_def
        as_double_def as_int64_t_def dereference_def is_type_def policy_defs
        ConstexprHeap_init_def rep Let_def)
qed

text \<open>
  Counterexample to C4 as stated: in a 1-slot double arena, \<open>from(Real, 20.5)\<close> takes the
  only slot. \<open>add(from(Integer, 10), from(Real, 20.5))\<close> then has one operand that is not
  of Integer kind, and returns no Real-kind value: the allocation of the result fails and
  the assertion in \<open>from<double>\<close> stops the program.
\<close>

theorem add_promotion_full_arena:
  "\<not> is_type IntPolicy_tag \<lparr>raw = 1\<rparr>
   \<and> from_double 20.5 (ConstexprHeap_init 1 :: real ConstexprHeap)
       = Inr (\<lparr>raw = 1\<rparr>, \<lparr>storage = [20.5], next_index = 1\<rparr>)
   \<and> add (of_int \<circ> sint) \<lparr>raw = 80\<rparr> \<lparr>raw = 1\<rparr> (ConstexprHeap_init 8 :: int64_t ConstexprHeap)
         \<lparr>storage = [20.5 :: real], next_index = 1\<rparr>
       = Inl AssertionFailed"
  by (simp add: add_def from_double_def allocate_def is_type_def policy_defs
      ConstexprHeap_init_def Let_def)

section \<open>Boolean operands of add\<close>

lemma bool_kind_not_other:
  "is_type BoolPolicy_tag a \<Longrightarrow> \<not> is_type IntPolicy_tag a \<and> \<not> is_type DoublePolicy_tag a"
  by (simp add: is_type_def policy_defs)

text \<open>
  C9 (as amended). A Boolean-kind operand of \<open>add\<close> is not of Integer kind, so \<open>add\<close>
  takes the floating-point path and reads the operand with \<open>as<double>\<close>. Its tag is
  not the Real tag, so \<open>as<double>\<close> returns the wrong-type default \<open>-1.0\<close> without
  consulting the arena: the operand is not dereferenced. With a free slot in the double
  arena, the sum stored is \<open>-1.0\<close> plus the other operand's double, whichever side the
  Boolean operand is on, and whatever boolean it was made from.
\<close>

theorem add_bool_operand:
  assumes "is_type BoolPolicy_tag a"
  shows "\<not> is_type IntPolicy_tag a
    \<and> as_double a dh = - 1
    \<and> (next_index dh < length (storage dh) \<longrightarrow>
         (let fb = (if is_type IntPolicy_tag b then to_double (as_int64_t b ih) else as_double b dh);
              r = \<lparr>raw = push_bit 3 (of_nat (next_index dh)) OR DoublePolicy_tag\<rparr>
          in add to_double a b ih dh =
               Inr (r, ih, dh\<lparr>storage := (storage dh)[next_index dh := - 1 + fb],
                              next_index := next_index dh + 1\<rparr>)
             \<and> add to_double b a ih dh =
               Inr (r, ih, dh\<lparr>storage := (storage dh)[next_index dh := fb + - 1],
                              next_index := next_index dh + 1\<rparr>)))"
proof -
  have n: "\<not> is_type IntPolicy_tag a" "\<not> is_type DoublePolicy_tag a"
    using bool_kind_not_other [OF assms] by simp_all
  have d: "as_double a dh = - 1"
    using n(2) by (simp add: as_double_def)
  show ?thesis
    using n(1) d by (simp add: add_def from_double_free Let_def)
qed

text \<open>
  Witness for C9: \<open>add(from(Boolean, true), from(Integer, 10))\<close> and the same with
  \<open>false\<close>, on a 2-slot double arena whose slot 0 holds 20.5: both store \<open>-1 + 10 = 9\<close>.
\<close>

theorem add_bool_operand_witness:
  "is_type BoolPolicy_tag (fst (from_bool True ()))
   \<and> next_index \<lparr>storage = [20.5, 0 :: real], next_index = 1\<rparr>
       < length (storage \<lparr>storage = [20.5, 0 :: real], next_index = 1\<rparr>)
   \<and> add (of_int \<circ> sint) (fst (from_bool True ())) \<lparr>raw = 80\<rparr> ()
         \<lparr>storage = [20.5, 0 :: real], next_index = 1\<rparr>
       = Inr (\<lparr>raw = 9\<rparr>, (), \<lparr>storage = [20.5, 9], next_index = 2\<rparr>)
   \<and> add (of_int \<circ> sint) (fst (from_bool False ())) \<lparr>raw = 80\<rparr> ()
         \<lparr>storage = [20.5, 0 :: real], next_index = 1\<rparr>
       = Inr (\<lparr>raw = 9\<rparr>, (), \<lparr>storage = [20.5, 9], next_index = 2\<rparr>)"
  using add_bool_operand [where a = "fst (from_bool True ())" and b = "\<lparr>raw = 80\<rparr>"
      and to_double = "of_int \<circ> sint" and ih = "()"
      and dh = "\<lparr>storage = [20.5, 0 :: real], next_index = 1\<rparr>"]
  by (simp add: from_bool_def as_int64_t_def is_type_def policy_defs Let_def)

text \<open>
  Counterexample to C9 as stated: \<open>from(Boolean, true)\<close> is the word 3, whose index as a
  pointer is 0. In an arena whose slot 0 holds 20.5 that index is in range, and
  \<open>dereference\<close> of the word returns 20.5, not the invalid-pointer sentinel. \<open>add\<close> of
  the integer 10 and this operand stores 9, that is \<open>10 + -1\<close> with the wrong-type
  default of \<open>as<double>\<close>, and not \<open>10 +\<close> the dereferenced value.
\<close>

theorem add_bool_operand_not_dereferenced:
  "is_type BoolPolicy_tag (fst (from_bool True ()))
   \<and> unat (signed_drop_bit 3 (raw (fst (from_bool True ()))))
       < length (storage \<lparr>storage = [20.5, 0 :: real], next_index = 1\<rparr>)
   \<and> dereference (raw (fst (from_bool True ()))) \<lparr>storage = [20.5, 0 :: real], next_index = 1\<rparr> = 20.5
   \<and> as_double (fst (from_bool True ())) \<lparr>storage = [20.5, 0 :: real], next_index = 1\<rparr> = - 1
   \<and> add (of_int \<circ> sint) \<lparr>raw = 80\<rparr> (fst (from_bool True ())) ()
         \<lparr>storage = [20.5, 0 :: real], next_index = 1\<rparr>
       = Inr (\<lparr>raw = 9\<rparr>, (), \<lparr>storage = [20.5, 9], next_index = 2\<rparr>)
   \<and> add (of_int \<circ> sint) \<lparr>raw = 80\<rparr> (fst (from_bool True ())) ()
         \<lparr>storage = [20.5, 0 :: real], next_index = 1\<rparr>
       \<noteq> Inr (\<lparr>raw = 9\<rparr>, (),
              \<lparr>storage = [20.5, 10 + dereference (raw (fst (from_bool True ())))
                                     \<lparr>storage = [20.5, 0 :: real], next_index = 1\<rparr>],
                next_index = 2\<rparr>)"
  by (simp add: add_def from_double_def allocate_def from_bool_def as_double_def as_int64_t_def
      dereference_def is_type_def policy_defs Let_def)

section \<open>What add changes\<close>

text \<open>
  C10. Whenever \<open>add\<close> returns, the integer arena it returns is the one it was given,
  cursor and slots. If both operands are of Integer kind the double arena is returned
  unchanged as well. Otherwise the double arena returned is the result of one
  \<open>allocate\<close> of the sum on the arena given: the cursor is one higher, the capacity the
  same, and only the slot at the old cursor may differ. When \<open>add\<close> does not return,
  the operands were not both integers and the double arena was full (the failed
  \<open>allocate\<close> changes nothing, see \<open>allocate_sentinel_iff\<close> and C6).
\<close>

theorem add_frame:
  fixes ih :: "'x ConstexprHeap"
  shows "case add to_double a b ih dh of
      Inr (r, ih', dh') \<Rightarrow>
        ih' = ih \<and> next_index ih' = next_index ih \<and> storage ih' = storage ih
        \<and> (is_type IntPolicy_tag a \<and> is_type IntPolicy_tag b \<longrightarrow> dh' = dh)
        \<and> (\<not> (is_type IntPolicy_tag a \<and> is_type IntPolicy_tag b) \<longrightarrow>
             (let fa = (if is_type IntPolicy_tag a then to_double (as_int64_t a ih) else as_double a dh);
                  fb = (if is_type IntPolicy_tag b then to_double (as_int64_t b ih) else as_double b dh)
              in allocate DoublePolicy_tag (fa + fb) dh = (raw r, dh'))
             \<and> next_index dh < length (storage dh)
             \<and> next_index dh' = next_index dh + 1
             \<and> length (storage dh') = length (storage dh)
             \<and> (\<forall>i. i \<noteq> next_index dh \<longrightarrow> storage dh' ! i = storage dh ! i))
    | Inl e \<Rightarrow>
        \<not> (is_type IntPolicy_tag a \<and> is_type IntPolicy_tag b)
        \<and> length (storage dh) \<le> next_index dh"
proof (cases "is_type IntPolicy_tag a \<and> is_type IntPolicy_tag b")
  case True
  then show ?thesis by (simp add: add_def from_int64_t_def)
next
  case False
  show ?thesis
  proof (cases "next_index dh < length (storage dh)")
    case True
    with False show ?thesis
      by (auto simp: add_def from_double_free allocate_def Let_def)
  next
    case full: False
    with False show ?thesis
      by (auto simp: add_def from_double_full Let_def)
  qed
qed

text \<open>
  Witness for C10: an integer arena with one written slot and a 2-slot double arena;
  first two Integer-kind operands, then an Integer-kind and a Real-kind operand.
\<close>

theorem add_frame_witness:
  "is_type IntPolicy_tag \<lparr>raw = 80\<rparr> \<and> is_type IntPolicy_tag \<lparr>raw = 40\<rparr>
   \<and> add (of_int \<circ> sint) \<lparr>raw = 80\<rparr> \<lparr>raw = 40\<rparr>
         \<lparr>storage = [7, 0 :: int64_t], next_index = 1\<rparr>
         \<lparr>storage = [20.5, 0 :: real], next_index = 1\<rparr>
       = Inr (\<lparr>raw = 120\<rparr>, \<lparr>storage = [7, 0], next_index = 1\<rparr>,
              \<lparr>storage = [20.5, 0], next_index = 1\<rparr>)
   \<and> \<not> (is_type IntPolicy_tag \<lparr>raw = 80\<rparr> \<and> is_type IntPolicy_tag \<lparr>raw = 1\<rparr>)
   \<and> add (of_int \<circ> sint) \<lparr>raw = 80\<rparr> \<lparr>raw = 1\<rparr>
         \<lparr>storage = [7, 0 :: int64_t], next_index = 1\<rparr>
         \<lparr>storage = [20.5, 0 :: real], next_index = 1\<rparr>
       = Inr (\<lparr>raw = 9\<rparr>, \<lparr>storage = [7, 0], next_index = 1\<rparr>,
              \<lparr>storage = [20.5, 30.5], next_index = 2\<rparr>)
   \<and> (0 :: nat) \<noteq> next_index \<lparr>storage = [20.5, 0 :: real], next_index = 1\<rparr>"
  using add_frame [where a = "\<lparr>raw = 80\<rparr>" and b = "\<lparr>raw = 40\<rparr>"
      and to_double = "of_int \<circ> sint"
      and ih = "\<lparr>storage = [7, 0 :: int64_t], next_index = 1\<rparr>"
      and dh = "\<lparr>storage = [20.5, 0 :: real], next_index = 1\<rparr>"]
    add_frame [where a = "\<lparr>raw = 80\<rparr>" and b = "\<lparr>raw = 1\<rparr>"
      and to_double = "of_int \<circ> sint"
      and ih = "\<lparr>storage = [7, 0 :: int64_t], next_index = 1\<rparr>"
      and dh = "\<lparr>storage = [20.5, 0 :: real], next_index = 1\<rparr>"]
  by (simp add: add_def from_double_def from_int64_t_def allocate_def
      as_double_def as_int64_t_def dereference_def is_type_def policy_defs Let_def)

end
